theory Spec2Isabelle
  imports Main "HOL-Library.Word"
begin

unbundle bit_operations_syntax

section \<open>Symbol tables (tables.c)\<close>

text \<open>
  A \<open>Symbol\<close> pairs a name with a 32-bit byte offset; a \<open>SymbolTable\<close> is the heap
  block \<open>tbl\<close> together with the fields \<open>len\<close>, \<open>cap\<close> and \<open>mode\<close>. The header
  tables.h that declares the two structs is not among the sources; the fields are the
  ones tables.c reads and writes. Strings are C strings without the terminating NUL,
  so \<open>strcmp(a, b) == 0\<close> is equality. Lengths and loop counters are natural numbers:
  a table never holds anywhere near \<open>2 ^ 31\<close> symbols. Allocation is assumed to succeed
  (\<open>allocation_failed\<close> ends the process).
\<close>

record Symbol =
  name :: string
  addr :: "32 word"

record SymbolTable =
  tbl :: "Symbol list"
  len :: nat
  cap :: nat
  mode :: int

definition SYMTBL_NON_UNIQUE :: int where
  "SYMTBL_NON_UNIQUE = 0"

definition SYMTBL_UNIQUE_NAME :: int where
  "SYMTBL_UNIQUE_NAME = 1"

definition INITIAL_SIZE :: nat where
  "INITIAL_SIZE = 5"

text \<open>The content of a cell that was allocated and not yet written.\<close>

definition uninit :: Symbol where
  "uninit = \<lparr>name = [], addr = 0\<rparr>"

text \<open>\<open>realloc\<close> to \<open>n\<close> cells keeps the old cells that still fit and leaves the new ones
  unwritten.\<close>

definition realloc :: "Symbol list \<Rightarrow> nat \<Rightarrow> Symbol list" where
  "realloc block n = take n block @ replicate (n - length block) uninit"

text \<open>\<open>create_table\<close>: \<open>malloc(0)\<close> for the symbols, length 0, the mode stored as given.\<close>

definition create_table :: "int \<Rightarrow> SymbolTable" where
  "create_table m = \<lparr>tbl = [], len = 0, cap = INITIAL_SIZE, mode = m\<rparr>"

definition create_copy_of_str :: "string \<Rightarrow> string" where
  "create_copy_of_str str = str"

text \<open>
  The \<open>for\<close> loop of \<open>add_to_table\<close> (lines 109 to 120): it copies the symbols into the
  local array \<open>copy\<close> and returns early, with \<open>Duplicate\<close>, at the first symbol of the
  same name when the mode is \<open>SYMTBL_UNIQUE_NAME\<close>.
\<close>

datatype scan = Duplicate | Copied "Symbol list"

function copy_symbols :: "SymbolTable \<Rightarrow> string \<Rightarrow> nat \<Rightarrow> Symbol list \<Rightarrow> scan" where
  "copy_symbols table copy_of_str count copy =
     (if count < len table then
        (let current_symbol = tbl table ! count in
         if name current_symbol = copy_of_str \<and> mode table = SYMTBL_UNIQUE_NAME then Duplicate
         else copy_symbols table copy_of_str (count + 1) (copy[count := current_symbol]))
      else Copied copy)"
  by pat_completeness auto
termination
  by (relation "measure (\<lambda>(table, copy_of_str, count, copy). len table - count)") auto

text \<open>
  The \<open>while\<close> loop of \<open>add_to_table\<close> (lines 132 to 135). Its body writes
  \<open>table->tbl[i] = copy[i]\<close> and leaves \<open>i\<close> as it is, so the recursive call is at the
  same \<open>i\<close>. The loop need not return: it is a partial function, \<open>None\<close> being
  "does not return".
\<close>

partial_function (option) restore_symbols ::
  "SymbolTable \<Rightarrow> Symbol list \<Rightarrow> nat \<Rightarrow> SymbolTable option" where
  "restore_symbols table copy i =
     (if i < len table - 1 then
        restore_symbols (table\<lparr>tbl := (tbl table)[i := copy ! i]\<rparr>) copy i
      else Some table)"

text \<open>
  \<open>add_to_table\<close> returns the C return value (0 or -1) and the table after the call;
  \<open>None\<close> when the call does not return.
\<close>

definition add_to_table ::
  "SymbolTable \<Rightarrow> string \<Rightarrow> 32 word \<Rightarrow> (int \<times> SymbolTable) option" where
  "add_to_table table nm a =
     (if a mod 4 \<noteq> 0 then Some (- 1, table)
      else
        let copy_of_str = create_copy_of_str nm in
        case copy_symbols table copy_of_str 0 (replicate (len table) uninit) of
          Duplicate \<Rightarrow> Some (- 1, table)
        | Copied copy \<Rightarrow>
            let table = table\<lparr>len := len table + 1\<rparr>;
                table = table\<lparr>tbl := realloc (tbl table) (len table)\<rparr> in
            (case restore_symbols table copy 0 of
               None \<Rightarrow> None
             | Some table \<Rightarrow>
                 let new_symbol = \<lparr>name = copy_of_str, addr = a\<rparr> in
                 Some (0, table\<lparr>tbl := (tbl table)[len table - 1 := new_symbol]\<rparr>)))"

text \<open>
  \<open>get_addr_for_symbol\<close>: the loop over the first \<open>len\<close> symbols, from index \<open>count\<close>.
  The result is an \<open>int64_t\<close>: the unsigned address, or -1.
\<close>

function get_addr_scan :: "SymbolTable \<Rightarrow> string \<Rightarrow> nat \<Rightarrow> int" where
  "get_addr_scan table nm count =
     (if count < len table then
        (let current_symbol = tbl table ! count in
         if name current_symbol = nm then uint (addr current_symbol)
         else get_addr_scan table nm (count + 1))
      else - 1)"
  by pat_completeness auto
termination
  by (relation "measure (\<lambda>(table, nm, count). len table - count)") auto

definition get_addr_for_symbol :: "SymbolTable \<Rightarrow> string \<Rightarrow> int" where
  "get_addr_for_symbol table nm = get_addr_scan table nm 0"

text \<open>The lookup as the specification words it: the first entry, in insertion order,
  whose name matches.\<close>

definition first_match :: "Symbol list \<Rightarrow> string \<Rightarrow> Symbol option" where
  "first_match entries nm = find (\<lambda>s. name s = nm) entries"

section \<open>Translation (translate.c)\<close>

text \<open>
  The output stream of pass one is the list of instruction lines written so far, that
  of pass two the list of 32-bit words written so far. A function returns its C
  return value together with the stream after the call.
\<close>

type_synonym inst_line = "string \<times> string list"

text \<open>
  Modelled from the spec: \<open>write_inst_string\<close> is defined in translate_utils.c, which is
  not among the sources. It writes one instruction, its name and its \<open>num_args\<close>
  arguments, as one line.
\<close>

definition write_inst_string ::
  "inst_line list \<Rightarrow> string \<Rightarrow> string list \<Rightarrow> int \<Rightarrow> inst_line list" where
  "write_inst_string output nm args num_args = output @ [(nm, take (nat num_args) args)]"

text \<open>
  Modelled from the spec: \<open>write_inst_hex\<close> is defined in translate_utils.c, which is
  not among the sources. It writes one 32-bit word as one line.
\<close>

definition write_inst_hex :: "32 word list \<Rightarrow> 32 word \<Rightarrow> 32 word list" where
  "write_inst_hex output instruction = output @ [instruction]"

text \<open>\<open>UINT_MAX\<close> of limits.h, for a 32-bit \<open>unsigned int\<close>.\<close>

definition UINT_MAX :: int where
  "UINT_MAX = 4294967295"

definition TWO_POW_SEVENTEEN :: int where
  "TWO_POW_SEVENTEEN = 131072"

text \<open>\<open>write_pass_one\<close>: each pseudo-instruction branch returns 0 at once; any other
  name is written through.\<close>

definition write_pass_one ::
  "inst_line list \<Rightarrow> string \<Rightarrow> string list \<Rightarrow> int \<Rightarrow> nat \<times> inst_line list" where
  "write_pass_one output nm args num_args =
     (if nm = ''li'' then (0, output)
      else if nm = ''move'' then (0, output)
      else if nm = ''blt'' then (0, output)
      else if nm = ''bgt'' then (0, output)
      else if nm = ''traddu'' then (0, output)
      else if nm = ''swpr'' then (0, output)
      else if nm = ''mul'' then (0, output)
      else if nm = ''div'' then (0, output)
      else if nm = ''rem'' then (0, output)
      else (1, write_inst_string output nm args num_args))"

text \<open>
  The encoders call \<open>translate_reg\<close> and \<open>translate_num\<close> of translate_utils.c, which is
  not among the sources: both are parameters here. \<open>translate_reg\<close> gives the register
  number of a name, or -1; \<open>translate_num str lower upper\<close> gives its return value and
  the number it stores through its first argument. A register number is a C \<open>int\<close>;
  the shifted fields are added into the \<open>uint32_t\<close> instruction, that is modulo
  \<open>2 ^ 32\<close>.
\<close>

definition write_rtype ::
  "(string \<Rightarrow> int) \<Rightarrow> 8 word \<Rightarrow> 32 word list \<Rightarrow> string list \<Rightarrow> nat \<Rightarrow> int \<times> 32 word list" where
  "write_rtype translate_reg funct output args num_args =
     (if num_args \<noteq> 3 then (- 1, output)
      else
        let rd = translate_reg (args ! 0);
            rs = translate_reg (args ! 1);
            rt = translate_reg (args ! 2) in
        if rs = - 1 \<or> rd = - 1 \<or> rt = - 1 then (- 1, output)
        else
          let instruction = word_of_int (push_bit 26 0);
              instruction = instruction + word_of_int (push_bit 21 rs);
              instruction = instruction + word_of_int (push_bit 16 rt);
              instruction = instruction + word_of_int (push_bit 11 rd);
              instruction = instruction + word_of_int (push_bit 6 0);
              instruction = instruction + ucast funct
          in (0, write_inst_hex output instruction))"

definition write_ori ::
  "(string \<Rightarrow> int) \<Rightarrow> (string \<Rightarrow> int \<Rightarrow> int \<Rightarrow> int \<times> int) \<Rightarrow> 8 word \<Rightarrow> 32 word list \<Rightarrow>
     string list \<Rightarrow> nat \<Rightarrow> int \<times> 32 word list" where
  "write_ori translate_reg translate_num opcode output args num_args =
     (if num_args \<noteq> 3 then (- 1, output)
      else
        let rt = translate_reg (args ! 0);
            rs = translate_reg (args ! 1) in
        if rs = - 1 \<or> rt = - 1 then (- 1, output)
        else
          let (num, i) = translate_num (args ! 2) 0 UINT_MAX in
          if num = - 1 then (- 1, output)
          else
            let instruction = word_of_int (push_bit 26 (uint opcode));
                instruction = instruction + word_of_int (push_bit 21 rs);
                instruction = instruction + word_of_int (push_bit 16 rt);
                instruction = instruction + word_of_int i
            in (0, write_inst_hex output instruction))"

text \<open>\<open>can_branch_to\<close>: \<open>diff\<close> is the difference of the two unsigned addresses read as
  an \<open>int32_t\<close>.\<close>

definition can_branch_to :: "32 word \<Rightarrow> 32 word \<Rightarrow> bool" where
  "can_branch_to src_addr dest_addr =
     (let diff = sint (dest_addr - src_addr) in
      (diff \<ge> 0 \<and> diff \<le> TWO_POW_SEVENTEEN) \<or>
      (diff < 0 \<and> diff \<ge> - (TWO_POW_SEVENTEEN - 4)))"

text \<open>\<open>write_branch\<close>: \<open>label_addr\<close> is the \<open>int64_t\<close> of the lookup cut to an \<open>int\<close>.
  The word written is the constant 0.\<close>

definition write_branch ::
  "(string \<Rightarrow> int) \<Rightarrow> 8 word \<Rightarrow> 32 word list \<Rightarrow> string list \<Rightarrow> nat \<Rightarrow> 32 word \<Rightarrow>
     SymbolTable \<Rightarrow> int \<times> 32 word list" where
  "write_branch translate_reg opcode output args num_args a symtbl =
     (if num_args \<noteq> 3 then (- 1, output)
      else
        let rs = translate_reg (args ! 0);
            rt = translate_reg (args ! 1) in
        if rt = - 1 \<or> rs = - 1 then (- 1, output)
        else
          let label_addr = sint (word_of_int (get_addr_for_symbol symtbl (args ! 2)) :: 32 word) in
          if label_addr = - 1 then (- 1, output)
          else
            let offset = (0 :: 32 word);
                instruction = (0 :: 32 word)
            in (0, write_inst_hex output instruction))"

text \<open>\<open>write_jump\<close> calls \<open>add_to_table\<close> and drops its return value; it returns when
  that call does. The relocation table after the call is part of the result.\<close>

definition write_jump ::
  "8 word \<Rightarrow> 32 word list \<Rightarrow> string list \<Rightarrow> nat \<Rightarrow> 32 word \<Rightarrow> SymbolTable \<Rightarrow>
     (int \<times> 32 word list \<times> SymbolTable) option" where
  "write_jump opcode output args num_args a reltbl =
     (if num_args \<noteq> 1 then Some (- 1, output, reltbl)
      else
        case add_to_table reltbl (args ! 0) a of
          None \<Rightarrow> None
        | Some (_, reltbl) \<Rightarrow>
            let instruction = word_of_int (push_bit 26 (uint opcode))
            in Some (0, write_inst_hex output instruction, reltbl))"

subsection \<open>The fields of an instruction word\<close>

text \<open>Bits 31 to 26 are the opcode, 25 to 21 \<open>rs\<close>, 20 to 16 \<open>rt\<close>, 15 to 11 \<open>rd\<close>,
  10 to 6 the shift amount, 5 to 0 the function code; a jump keeps its target in bits
  25 to 0.\<close>

definition opcode_of :: "32 word \<Rightarrow> 32 word" where
  "opcode_of w = drop_bit 26 w"

definition rs_of :: "32 word \<Rightarrow> 32 word" where
  "rs_of w = drop_bit 21 w AND 0x1F"

definition rt_of :: "32 word \<Rightarrow> 32 word" where
  "rt_of w = drop_bit 16 w AND 0x1F"

definition rd_of :: "32 word \<Rightarrow> 32 word" where
  "rd_of w = drop_bit 11 w AND 0x1F"

definition shamt_of :: "32 word \<Rightarrow> 32 word" where
  "shamt_of w = drop_bit 6 w AND 0x1F"

definition funct_of :: "32 word \<Rightarrow> 32 word" where
  "funct_of w = w AND 0x3F"

definition target_of :: "32 word \<Rightarrow> 32 word" where
  "target_of w = w AND 0x3FFFFFF"

text \<open>The word that \<open>write_rtype\<close> assembles (lines 142 to 147) from the numbers of
  \<open>rs\<close>, \<open>rt\<close> and \<open>rd\<close> and the function code.\<close>

definition rtype_word :: "int \<Rightarrow> int \<Rightarrow> int \<Rightarrow> 8 word \<Rightarrow> 32 word" where
  "rtype_word rs rt rd funct =
     word_of_int (push_bit 26 0) + word_of_int (push_bit 21 rs) + word_of_int (push_bit 16 rt)
       + word_of_int (push_bit 11 rd) + word_of_int (push_bit 6 0) + ucast funct"

subsection \<open>Instances of the two parameters\<close>

text \<open>
  Modelled from the spec: \<open>translate_reg\<close> is defined in translate_utils.c, which is not
  among the sources. \<open>test_translate_reg\<close> lists the names whose numbers the test of
  that name asserts; \<open>translate_reg_model\<close> gives those numbers and -1 for any other
  string (as the test asserts for \<open>$3\<close>, \<open>asdf\<close> and \<open>hey there\<close>). It stands for the
  parameter at concrete inputs only.
\<close>

definition test_translate_reg :: "(string \<times> int) list" where
  "test_translate_reg =
     [(''$0'', 0), (''$at'', 1), (''$v0'', 2), (''$a0'', 4), (''$a1'', 5), (''$a2'', 6),
      (''$a3'', 7), (''$t0'', 8), (''$t1'', 9), (''$t2'', 10), (''$t3'', 11), (''$s0'', 16),
      (''$s1'', 17)]"

definition translate_reg_model :: "string \<Rightarrow> int" where
  "translate_reg_model str =
     (case map_of test_translate_reg str of Some r \<Rightarrow> r | None \<Rightarrow> - 1)"

text \<open>
  Modelled from the spec: \<open>translate_num\<close> is defined in translate_utils.c, which is not
  among the sources. As \<open>test_translate_num\<close> asserts, it reads a decimal number or a
  hexadecimal one after \<open>0x\<close>, fails (-1) on any other text and on a number outside
  \<open>lower\<close> to \<open>upper\<close>, and otherwise returns 0 and stores the number.
\<close>

fun digit_value :: "nat \<Rightarrow> char \<Rightarrow> nat option" where
  "digit_value base c =
     (let k = (of_char c :: nat);
          d = (if 48 \<le> k \<and> k \<le> 57 then Some (k - 48)
               else if 97 \<le> k \<and> k \<le> 102 then Some (k - 87)
               else if 65 \<le> k \<and> k \<le> 70 then Some (k - 55)
               else None)
      in case d of None \<Rightarrow> None | Some v \<Rightarrow> if v < base then Some v else None)"

fun parse_digits :: "nat \<Rightarrow> nat \<Rightarrow> string \<Rightarrow> nat option" where
  "parse_digits base acc [] = Some acc"
| "parse_digits base acc (c # cs) =
     (case digit_value base c of
        None \<Rightarrow> None
      | Some v \<Rightarrow> parse_digits base (acc * base + v) cs)"

fun parse_unsigned :: "string \<Rightarrow> nat option" where
  "parse_unsigned [] = None"
| "parse_unsigned (c # cs) =
     (if c = CHR ''0'' \<and> cs \<noteq> [] \<and> (hd cs = CHR ''x'' \<or> hd cs = CHR ''X'') then
        (if tl cs = [] then None else parse_digits 16 0 (tl cs))
      else parse_digits 10 0 (c # cs))"

fun parse_number :: "string \<Rightarrow> int option" where
  "parse_number [] = None"
| "parse_number (c # cs) =
     (if c = CHR ''-'' then map_option (\<lambda>n. - int n) (parse_unsigned cs)
      else map_option int (parse_unsigned (c # cs)))"

definition translate_num_model :: "string \<Rightarrow> int \<Rightarrow> int \<Rightarrow> int \<times> int" where
  "translate_num_model str lower upper =
     (case parse_number str of
        None \<Rightarrow> (- 1, 0)
      | Some v \<Rightarrow> if lower \<le> v \<and> v \<le> upper then (0, v) else (- 1, 0))"

section \<open>Properties of the symbol table\<close>

subsection \<open>The two loops of \<open>add_to_table\<close>\<close>

lemma restore_symbols_diverges:
  assumes "restore_symbols table copy i = Some r"
  shows "\<not> i < len table - 1"
  using assms
  by (rule restore_symbols.raw_induct
        [rotated 1, where P = "\<lambda>table copy i r. \<not> i < len table - 1"])
     (fastforce split: if_splits)

lemma restore_symbols_None:
  "i < len table - 1 \<Longrightarrow> restore_symbols table copy i = None"
  using restore_symbols_diverges [of table copy i]
  by (cases "restore_symbols table copy i") auto

lemma restore_symbols_Some:
  "\<not> i < len table - 1 \<Longrightarrow> restore_symbols table copy i = Some table"
  by (subst restore_symbols.simps) simp

lemma copy_symbols_Duplicate:
  "mode table = SYMTBL_UNIQUE_NAME \<Longrightarrow> count \<le> j \<Longrightarrow> j < len table \<Longrightarrow>
   name (tbl table ! j) = nm \<Longrightarrow> copy_symbols table nm count copy = Duplicate"
proof (induction table nm count copy rule: copy_symbols.induct)
  case (1 table copy_of_str count copy)
  show ?case
  proof (cases "name (tbl table ! count) = copy_of_str")
    case True
    with 1 show ?thesis by simp
  next
    case False
    with 1 have "count \<noteq> j" by auto
    with 1 have "count + 1 \<le> j" by simp
    with 1 False show ?thesis by (simp add: Let_def)
  qed
qed

lemma copy_symbols_Copied:
  "mode table \<noteq> SYMTBL_UNIQUE_NAME \<or>
     (\<forall>j. count \<le> j \<and> j < len table \<longrightarrow> name (tbl table ! j) \<noteq> nm) \<Longrightarrow>
   \<exists>copy'. copy_symbols table nm count copy = Copied copy'"
proof (induction table nm count copy rule: copy_symbols.induct)
  case (1 table copy_of_str count copy)
  show ?case
  proof (cases "count < len table")
    case True
    with 1 show ?thesis by (subst copy_symbols.simps) (auto simp: Let_def)
  next
    case False
    then show ?thesis by simp
  qed
qed

lemma get_addr_scan_find:
  "len table = length (tbl table) \<Longrightarrow>
   get_addr_scan table nm count =
     (case find (\<lambda>s. name s = nm) (drop count (tbl table)) of
        Some s \<Rightarrow> uint (addr s) | None \<Rightarrow> - 1)"
proof (induction table nm count rule: get_addr_scan.induct)
  case (1 table nm count)
  show ?case
  proof (cases "count < len table")
    case True
    with 1 have d: "drop count (tbl table) = tbl table ! count # drop (count + 1) (tbl table)"
      by (simp add: Cons_nth_drop_Suc)
    from True 1 show ?thesis
      by (subst get_addr_scan.simps) (simp add: d Let_def del: get_addr_scan.simps)
  next
    case False
    with 1 show ?thesis by simp
  qed
qed

subsection \<open>What a call of \<open>add_to_table\<close> does\<close>

text \<open>On an empty table with a word-aligned address neither loop runs, and the symbol
  is stored.\<close>

lemma add_to_table_empty:
  assumes "a mod 4 = 0" "len table = 0" "tbl table = []"
  shows "add_to_table table nm a =
           Some (0, table\<lparr>len := 1, tbl := [\<lparr>name = nm, addr = a\<rparr>]\<rparr>)"
  using assms
  by (simp add: add_to_table_def create_copy_of_str_def realloc_def restore_symbols_Some)

text \<open>On a table that holds a symbol already, an insertion that is neither misaligned
  nor a rejected duplicate reaches the \<open>while\<close> loop with \<open>0 < len - 1\<close>, and the loop
  does not end.\<close>

lemma add_to_table_nonempty:
  assumes "a mod 4 = 0" "0 < len table"
    and "mode table \<noteq> SYMTBL_UNIQUE_NAME \<or> (\<forall>j < len table. name (tbl table ! j) \<noteq> nm)"
  shows "add_to_table table nm a = None"
proof -
  from assms(3) obtain copy' where
    c: "copy_symbols table nm 0 (replicate (len table) uninit) = Copied copy'"
    using copy_symbols_Copied [of table 0 nm "replicate (len table) uninit"] by auto
  from assms(2) show ?thesis
    by (simp add: add_to_table_def create_copy_of_str_def c restore_symbols_None assms(1)
          del: copy_symbols.simps)
qed

text \<open>
  C6. For every table, whatever its mode, every name and every address that is not a
  multiple of 4, \<open>add_to_table\<close> returns -1 and the table after the call is the table
  before it: same length, same entries, same order.
\<close>

theorem add_to_table_misaligned:
  "a mod 4 \<noteq> 0 \<Longrightarrow> add_to_table table nm a = Some (- 1, table)"
  by (simp add: add_to_table_def)

theorem add_to_table_misaligned_witness:
  "(14 :: 32 word) mod 4 \<noteq> 0 \<and>
   add_to_table (create_table SYMTBL_UNIQUE_NAME) ''bob'' 14 =
     Some (- 1, create_table SYMTBL_UNIQUE_NAME)"
proof -
  have h: "(14 :: 32 word) mod 4 \<noteq> 0" by simp
  show ?thesis
    using h add_to_table_misaligned [OF h, of "create_table SYMTBL_UNIQUE_NAME" "''bob''"]
    by simp
qed

text \<open>
  C7. In a table whose mode is \<open>SYMTBL_UNIQUE_NAME\<close> and that holds the name already,
  \<open>add_to_table\<close> with that name returns -1 and leaves the table as it was, for every
  address (the word-aligned ones included); so the address stored first for the name
  is the one the table keeps.
\<close>

theorem add_to_table_duplicate:
  assumes "mode table = SYMTBL_UNIQUE_NAME"
    and "len table = length (tbl table)"
    and "nm \<in> name ` set (tbl table)"
  shows "add_to_table table nm a = Some (- 1, table)"
proof -
  from assms(3) obtain j where j: "j < length (tbl table)" "name (tbl table ! j) = nm"
    by (auto simp: in_set_conv_nth)
  with assms have "copy_symbols table nm 0 (replicate (len table) uninit) = Duplicate"
    by (intro copy_symbols_Duplicate [where j = j]) simp_all
  then show ?thesis
    by (simp add: add_to_table_def create_copy_of_str_def del: copy_symbols.simps)
qed

theorem add_to_table_duplicate_witness:
  "add_to_table \<lparr>tbl = [\<lparr>name = ''q45'', addr = 16\<rparr>], len = 1, cap = 5, mode = 1\<rparr> ''q45'' 24
     = Some (- 1, \<lparr>tbl = [\<lparr>name = ''q45'', addr = 16\<rparr>], len = 1, cap = 5, mode = 1\<rparr>)
   \<and> get_addr_for_symbol
       \<lparr>tbl = [\<lparr>name = ''q45'', addr = 16\<rparr>], len = 1, cap = 5, mode = 1\<rparr> ''q45'' = 16"
  using add_to_table_duplicate
    [of "\<lparr>tbl = [\<lparr>name = ''q45'', addr = 16\<rparr>], len = 1, cap = 5, mode = 1\<rparr>" "''q45''" 24]
  by (simp add: SYMTBL_UNIQUE_NAME_def get_addr_for_symbol_def)

text \<open>
  C8. \<open>get_addr_for_symbol\<close> returns the address of the first entry, in insertion
  order, whose name is the one asked for, and -1 when no entry has that name. It
  returns a number only: the table is an argument that it reads.
\<close>

theorem get_addr_for_symbol_first_match:
  assumes "len table = length (tbl table)"
  shows "get_addr_for_symbol table nm =
           (case first_match (tbl table) nm of Some s \<Rightarrow> uint (addr s) | None \<Rightarrow> - 1)"
  using get_addr_scan_find [OF assms, of nm 0]
  by (simp add: get_addr_for_symbol_def first_match_def)

theorem get_addr_for_symbol_first_match_witness:
  "get_addr_for_symbol
     \<lparr>tbl = [\<lparr>name = ''abc'', addr = 8\<rparr>, \<lparr>name = ''q45'', addr = 16\<rparr>,
             \<lparr>name = ''q45'', addr = 24\<rparr>],
      len = 3, cap = 5, mode = 0\<rparr> ''q45'' = 16
   \<and> get_addr_for_symbol
     \<lparr>tbl = [\<lparr>name = ''abc'', addr = 8\<rparr>, \<lparr>name = ''q45'', addr = 16\<rparr>,
             \<lparr>name = ''q45'', addr = 24\<rparr>],
      len = 3, cap = 5, mode = 0\<rparr> ''ef'' = - 1"
  using get_addr_for_symbol_first_match
      [of "\<lparr>tbl = [\<lparr>name = ''abc'', addr = 8\<rparr>, \<lparr>name = ''q45'', addr = 16\<rparr>,
                   \<lparr>name = ''q45'', addr = 24\<rparr>],
            len = 3, cap = 5, mode = 0\<rparr>" "''q45''"]
    get_addr_for_symbol_first_match
      [of "\<lparr>tbl = [\<lparr>name = ''abc'', addr = 8\<rparr>, \<lparr>name = ''q45'', addr = 16\<rparr>,
                   \<lparr>name = ''q45'', addr = 24\<rparr>],
            len = 3, cap = 5, mode = 0\<rparr>" "''ef''"]
  by (simp add: first_match_def)

text \<open>
  C3. The claim is that every insertion that is word-aligned and allowed by the mode
  returns 0 with the symbol appended. The second insertion of \<open>test_table_1\<close> into its
  \<open>SYMTBL_NON_UNIQUE\<close> table, \<open>q45\<close> at 24 after \<open>q45\<close> at 16, is such an insertion, and
  the call does not return: the \<open>while\<close> loop that copies the symbols back never
  advances \<open>i\<close>.
\<close>

theorem add_to_table_second_insert_hangs:
  "add_to_table
     \<lparr>tbl = [\<lparr>name = ''q45'', addr = 16\<rparr>], len = 1, cap = 5, mode = SYMTBL_NON_UNIQUE\<rparr>
     ''q45'' 24 = None"
  by (rule add_to_table_nonempty) (simp_all add: SYMTBL_NON_UNIQUE_def SYMTBL_UNIQUE_NAME_def)

text \<open>The mode is stored as given, and with a mode other than \<open>SYMTBL_UNIQUE_NAME\<close> a
  word-aligned insertion is never answered with -1.\<close>

lemma create_table_fields:
  "mode (create_table m) = m \<and> len (create_table m) = 0 \<and> tbl (create_table m) = []"
  by (simp add: create_table_def)

lemma add_to_table_other_mode_not_rejected:
  assumes "mode table \<noteq> SYMTBL_UNIQUE_NAME" "a mod 4 = 0"
  shows "add_to_table table nm a \<noteq> Some (- 1, t)"
proof -
  from assms(1) obtain copy' where
    c: "copy_symbols table nm 0 (replicate (len table) uninit) = Copied copy'"
    using copy_symbols_Copied [of table 0 nm "replicate (len table) uninit"] by auto
  show ?thesis
    using assms(2)
    by (simp add: add_to_table_def create_copy_of_str_def c Let_def del: copy_symbols.simps
          split: option.splits)
qed

text \<open>
  C10. \<open>create_table\<close> stores any mode as given, and a mode other than 1 never takes
  the duplicate branch; but the table does not come to hold the duplicate. With mode 2
  the first insertion of \<open>q45\<close> succeeds and the second, of the same name, does not
  return.
\<close>

theorem create_table_other_mode_duplicate_hangs:
  "add_to_table (create_table 2) ''q45'' 16 =
     Some (0, \<lparr>tbl = [\<lparr>name = ''q45'', addr = 16\<rparr>], len = 1, cap = 5, mode = 2\<rparr>)
   \<and> add_to_table
       \<lparr>tbl = [\<lparr>name = ''q45'', addr = 16\<rparr>], len = 1, cap = 5, mode = 2\<rparr> ''q45'' 24 = None"
proof
  show "add_to_table (create_table 2) ''q45'' 16 =
     Some (0, \<lparr>tbl = [\<lparr>name = ''q45'', addr = 16\<rparr>], len = 1, cap = 5, mode = 2\<rparr>)"
    by (subst add_to_table_empty) (simp_all add: create_table_def INITIAL_SIZE_def)
  show "add_to_table
       \<lparr>tbl = [\<lparr>name = ''q45'', addr = 16\<rparr>], len = 1, cap = 5, mode = 2\<rparr> ''q45'' 24 = None"
    by (rule add_to_table_nonempty) (simp_all add: SYMTBL_UNIQUE_NAME_def)
qed

section \<open>Properties of the translation\<close>

subsection \<open>Words and their fields\<close>

lemma and_1F: "(x :: 32 word) AND 0x1F = take_bit 5 x"
  by (simp add: take_bit_eq_mask mask_eq_exp_minus_1)

lemma and_3F: "(x :: 32 word) AND 0x3F = take_bit 6 x"
  by (simp add: take_bit_eq_mask mask_eq_exp_minus_1)

lemma and_3FFFFFF: "(x :: 32 word) AND 0x3FFFFFF = take_bit 26 x"
  by (simp add: take_bit_eq_mask mask_eq_exp_minus_1)

lemma uint_fields:
  fixes w :: "32 word"
  shows "uint (opcode_of w) = uint w div 2 ^ 26"
    and "uint (rs_of w) = uint w div 2 ^ 21 mod 32"
    and "uint (rt_of w) = uint w div 2 ^ 16 mod 32"
    and "uint (rd_of w) = uint w div 2 ^ 11 mod 32"
    and "uint (shamt_of w) = uint w div 2 ^ 6 mod 32"
    and "uint (funct_of w) = uint w mod 64"
  by (simp_all add: opcode_of_def rs_of_def rt_of_def rd_of_def shamt_of_def funct_of_def
        and_1F and_3F take_bit_eq_mod drop_bit_eq_div uint_div uint_mod)

lemma target_of_opcode:
  "target_of (word_of_int (push_bit 26 (uint (opcode :: 8 word)))) = 0"
proof -
  have "(word_of_int (push_bit 26 (uint opcode)) :: 32 word) = push_bit 26 (word_of_int (uint opcode))"
    by (simp add: push_bit_eq_mult)
  then show ?thesis
    by (simp only: target_of_def and_3FFFFFF take_bit_push_bit) simp
qed

lemma div_step:
  fixes q r m :: int
  assumes "0 \<le> r" "r < m"
  shows "(q * m + r) div m = q"
  using assms by (simp add: div_pos_pos_trivial)

lemma mod_step:
  fixes q r m :: int
  assumes "0 \<le> r" "r < m"
  shows "(q * m + r) mod m = r"
  using assms by (simp add: mod_pos_pos_trivial)

lemma arith_fields:
  fixes rs rt rd f :: int
  assumes "0 \<le> rs" "rs \<le> 31" "0 \<le> rt" "rt \<le> 31" "0 \<le> rd" "rd \<le> 31" "0 \<le> f" "f < 64"
  defines "N \<equiv> rs * 2 ^ 21 + rt * 2 ^ 16 + rd * 2 ^ 11 + f"
  shows "N div 2 ^ 26 = 0"
    and "N div 2 ^ 21 mod 32 = rs"
    and "N div 2 ^ 16 mod 32 = rt"
    and "N div 2 ^ 11 mod 32 = rd"
    and "N div 2 ^ 6 mod 32 = 0"
    and "N mod 64 = f"
proof -
  have "0 \<le> N" "N < 2 ^ 26"
    using assms(1-8) by (simp_all add: N_def)
  then show "N div 2 ^ 26 = 0"
    by (simp add: div_pos_pos_trivial)
  have "N = rs * 2 ^ 21 + (rt * 2 ^ 16 + rd * 2 ^ 11 + f)"
    by (simp add: N_def)
  moreover have "0 \<le> rt * 2 ^ 16 + rd * 2 ^ 11 + f" "rt * 2 ^ 16 + rd * 2 ^ 11 + f < 2 ^ 21"
    using assms(1-8) by simp_all
  ultimately have "N div 2 ^ 21 = rs"
    by (simp only: div_step)
  then show "N div 2 ^ 21 mod 32 = rs"
    using assms(1-2) by (simp add: mod_pos_pos_trivial)
  have "N = (rs * 32 + rt) * 2 ^ 16 + (rd * 2 ^ 11 + f)"
    by (simp add: N_def)
  moreover have "0 \<le> rd * 2 ^ 11 + f" "rd * 2 ^ 11 + f < 2 ^ 16"
    using assms(1-8) by simp_all
  ultimately have "N div 2 ^ 16 = rs * 32 + rt"
    by (simp only: div_step)
  then show "N div 2 ^ 16 mod 32 = rt"
    using assms(3-4) by (simp only: mod_step)
  have "N = (rs * 1024 + rt * 32 + rd) * 2 ^ 11 + f"
    by (simp add: N_def)
  moreover have "f < 2 ^ 11"
    using assms(8) by simp
  ultimately have "N div 2 ^ 11 = (rs * 32 + rt) * 32 + rd"
    using assms(7) by (simp add: div_step)
  then show "N div 2 ^ 11 mod 32 = rd"
    using assms(5-6) by (simp only: mod_step)
  have "N = ((rs * 1024 + rt * 32 + rd) * 32) * 2 ^ 6 + f"
    by (simp add: N_def)
  moreover have "f < 2 ^ 6"
    using assms(8) by simp
  ultimately have "N div 2 ^ 6 = (rs * 1024 + rt * 32 + rd) * 32 + 0"
    using assms(7) by (simp add: div_step)
  then show "N div 2 ^ 6 mod 32 = 0"
    by (simp only: mod_step)
  have "N = (rs * 32768 + rt * 1024 + rd * 32) * 64 + f"
    by (simp add: N_def)
  then show "N mod 64 = f"
    using assms(7-8) by (simp only: mod_step)
qed

lemma uint_rtype_word:
  fixes rs rt rd :: int
  assumes "0 \<le> rs" "rs \<le> 31" "0 \<le> rt" "rt \<le> 31" "0 \<le> rd" "rd \<le> 31"
  shows "uint (rtype_word rs rt rd funct) = rs * 2 ^ 21 + rt * 2 ^ 16 + rd * 2 ^ 11 + uint funct"
proof -
  define N where "N = rs * 2 ^ 21 + rt * 2 ^ 16 + rd * 2 ^ 11 + uint funct"
  have f: "0 \<le> uint funct" "uint funct < 256"
    using uint_lt2p [of funct] by simp_all
  have "rtype_word rs rt rd funct = word_of_int N"
    unfolding rtype_word_def ucast_eq [of funct] N_def by (simp add: push_bit_eq_mult)
  then have "uint (rtype_word rs rt rd funct) = uint (word_of_int N :: 32 word)"
    by (rule arg_cong)
  also have "\<dots> = N mod 2 ^ 32"
    by (simp add: uint_word_of_int)
  also have "\<dots> = N"
  proof (rule mod_pos_pos_trivial)
    show "0 \<le> N" using assms f by (simp add: N_def)
    show "N < 2 ^ 32" using assms f by (simp add: N_def)
  qed
  finally show ?thesis by (simp only: N_def)
qed

lemma write_rtype_word:
  assumes "translate_reg a0 \<noteq> - 1" "translate_reg a1 \<noteq> - 1" "translate_reg a2 \<noteq> - 1"
  shows "write_rtype translate_reg funct output [a0, a1, a2] 3 =
           (0, output @ [rtype_word (translate_reg a1) (translate_reg a2) (translate_reg a0) funct])"
  using assms by (simp add: write_rtype_def rtype_word_def write_inst_hex_def Let_def)

subsection \<open>Pass one\<close>

text \<open>
  C1. The claim is that \<open>li\<close> with the immediate 100 writes one instruction and returns
  1, and with 432096 writes two and returns 2, as the comment above \<open>write_pass_one\<close>
  and \<open>test_write_pass_one\<close> say. The \<open>li\<close> branch returns 0 at once: on both inputs
  nothing is written and the result is 0.
\<close>

theorem write_pass_one_li_writes_nothing:
  "write_pass_one [] ''li'' [''$s0'', ''100''] 2 = (0, [])
   \<and> write_pass_one [] ''li'' [''$s0'', ''432096''] 2 = (0, [])"
  by (simp add: write_pass_one_def)

subsection \<open>Register-register instructions\<close>

text \<open>
  C5. Let the three operands name registers with numbers \<open>rd\<close>, \<open>rs\<close>, \<open>rt\<close> between 0
  and 31, and let the function code fit its six bits. Then \<open>write_rtype\<close> succeeds and
  writes one word, and the fields of that word are: opcode 0, shift amount 0, the
  function code given, and the three register numbers, each in its own field.
\<close>

theorem write_rtype_roundtrip:
  assumes "translate_reg a0 = rd" "translate_reg a1 = rs" "translate_reg a2 = rt"
    and "0 \<le> rd" "rd \<le> 31" "0 \<le> rs" "rs \<le> 31" "0 \<le> rt" "rt \<le> 31"
    and "uint funct < 64"
  shows "\<exists>w. write_rtype translate_reg funct output [a0, a1, a2] 3 = (0, output @ [w])
           \<and> uint (opcode_of w) = 0 \<and> uint (shamt_of w) = 0 \<and> uint (funct_of w) = uint funct
           \<and> uint (rs_of w) = rs \<and> uint (rt_of w) = rt \<and> uint (rd_of w) = rd"
proof -
  let ?w = "rtype_word rs rt rd funct"
  have w: "write_rtype translate_reg funct output [a0, a1, a2] 3 = (0, output @ [?w])"
    using assms(1-9) write_rtype_word [of translate_reg a0 a1 a2 funct "output"] by auto
  have u: "uint ?w = rs * 2 ^ 21 + rt * 2 ^ 16 + rd * 2 ^ 11 + uint funct"
    using assms by (intro uint_rtype_word)
  have f: "0 \<le> uint funct" by simp
  note a = arith_fields [OF assms(6,7,8,9,4,5) f assms(10)]
  have "uint (opcode_of ?w) = 0" "uint (shamt_of ?w) = 0" "uint (funct_of ?w) = uint funct"
    "uint (rs_of ?w) = rs" "uint (rt_of ?w) = rt" "uint (rd_of ?w) = rd"
    unfolding uint_fields u by (rule a)+
  with w show ?thesis by blast
qed

theorem write_rtype_roundtrip_witness:
  "write_rtype translate_reg_model 0x21 [] [''$v0'', ''$t1'', ''$s0''] 3 = (0, [0x01301021])
   \<and> uint (opcode_of 0x01301021) = 0 \<and> uint (shamt_of 0x01301021) = 0
   \<and> uint (funct_of 0x01301021) = 0x21
   \<and> uint (rs_of 0x01301021) = 9 \<and> uint (rt_of 0x01301021) = 16
   \<and> uint (rd_of 0x01301021) = 2"
proof -
  have r: "translate_reg_model ''$v0'' = 2" "translate_reg_model ''$t1'' = 9"
    "translate_reg_model ''$s0'' = 16"
    by (simp_all add: translate_reg_model_def test_translate_reg_def)
  have "\<exists>w. write_rtype translate_reg_model 0x21 [] [''$v0'', ''$t1'', ''$s0''] 3 = (0, [] @ [w])
           \<and> uint (opcode_of w) = 0 \<and> uint (shamt_of w) = 0
           \<and> uint (funct_of w) = uint (0x21 :: 8 word)
           \<and> uint (rs_of w) = 9 \<and> uint (rt_of w) = 16 \<and> uint (rd_of w) = 2"
    by (rule write_rtype_roundtrip
          [where translate_reg = translate_reg_model and ?a0.0 = "''$v0''" and ?a1.0 = "''$t1''"
             and ?a2.0 = "''$s0''" and funct = "0x21" and rd = 2 and rs = 9 and rt = 16])
       (simp_all add: r)
  then obtain w where
    w: "write_rtype translate_reg_model 0x21 [] [''$v0'', ''$t1'', ''$s0''] 3 = (0, [w])"
    and fields: "uint (opcode_of w) = 0" "uint (shamt_of w) = 0"
      "uint (funct_of w) = uint (0x21 :: 8 word)"
      "uint (rs_of w) = 9" "uint (rt_of w) = 16" "uint (rd_of w) = 2"
    by auto
  have e: "write_rtype translate_reg_model 0x21 [] [''$v0'', ''$t1'', ''$s0''] 3
             = (0, [0x01301021])"
    by (simp add: write_rtype_def r write_inst_hex_def)
  with w have "w = 0x01301021" by simp
  with fields e show ?thesis by simp
qed

subsection \<open>Or-immediate\<close>

text \<open>
  C9. The claim is that an immediate outside 0 to 65535 makes \<open>write_ori\<close> fail. The
  bound handed to \<open>translate_num\<close> is \<open>UINT_MAX\<close>: \<open>ori $t0, $t1, 65536\<close> succeeds, and
  the immediate is added into the word above its 16 bits, so that the \<open>rt\<close> field reads
  9 where \<open>$t0\<close> is register 8.
\<close>

theorem write_ori_accepts_65536:
  "write_ori translate_reg_model translate_num_model 0xd [] [''$t0'', ''$t1'', ''65536''] 3
     = (0, [0x35290000])
   \<and> rt_of 0x35290000 = 9 \<and> translate_reg_model ''$t0'' = 8"
  by (simp add: write_ori_def translate_reg_model_def test_translate_reg_def
        translate_num_model_def UINT_MAX_def write_inst_hex_def rt_of_def)

subsection \<open>Branches\<close>

text \<open>
  C2. The claim is that a branch whose target is out of reach fails and writes nothing.
  \<open>write_branch\<close> looks the label up and then writes the word 0 and returns 0; it never
  computes the displacement and never calls \<open>can_branch_to\<close>. For \<open>beq $t0, $t1, far\<close>
  at address 0 with \<open>far\<close> at \<open>0x100000\<close> the displacement in words is 262143, beyond
  a signed 16-bit field, \<open>can_branch_to\<close> is false, and yet a word is written.
\<close>

theorem write_branch_writes_unreachable:
  "write_branch translate_reg_model 4 [] [''$t0'', ''$t1'', ''far''] 3 0
     \<lparr>tbl = [\<lparr>name = ''far'', addr = 0x100000\<rparr>], len = 1, cap = 5, mode = 1\<rparr> = (0, [0])
   \<and> \<not> can_branch_to 0 0x100000 \<and> \<not> can_branch_to 4 0x100000
   \<and> \<not> (0x100000 - (0 + 4)) div 4 \<le> (32767 :: int)"
  by (simp add: write_branch_def translate_reg_model_def test_translate_reg_def
        get_addr_for_symbol_def write_inst_hex_def can_branch_to_def TWO_POW_SEVENTEEN_def)

subsection \<open>Jumps\<close>

text \<open>A jump at a word-aligned address into a relocation table that holds an entry
  already, and whose mode does not reject the name, does not return: the insertion
  it makes does not.\<close>

lemma write_jump_nonempty:
  assumes "a mod 4 = 0" "0 < len reltbl"
    and "mode reltbl \<noteq> SYMTBL_UNIQUE_NAME \<or> (\<forall>j < len reltbl. name (tbl reltbl ! j) \<noteq> nm)"
  shows "write_jump opcode output [nm] 1 a reltbl = None"
  using add_to_table_nonempty [OF assms] by (simp add: write_jump_def)

text \<open>
  C4. The claim is that every jump with one label operand records the label in the
  relocation table at its own address, writes one word with a zero target field and
  returns success. The first jump of a program does: \<open>j main\<close> at address 4, into the
  empty \<open>SYMTBL_NON_UNIQUE\<close> relocation table, returns 0, writes \<open>0x08000000\<close> and
  stores \<open>main\<close> at 4. The second does not: \<open>jal printf\<close> at address 8, into the table
  the first jump left, never returns, so that no word is written and nothing is
  recorded. The insertion it makes is one into a table that is not empty, where the
  \<open>while\<close> loop of \<open>add_to_table\<close> never advances \<open>i\<close>.
\<close>

theorem write_jump_second_jump_hangs:
  "write_jump 2 [] [''main''] 1 4 (create_table SYMTBL_NON_UNIQUE) =
     Some (0, [0x08000000],
           \<lparr>tbl = [\<lparr>name = ''main'', addr = 4\<rparr>], len = 1, cap = 5, mode = 0\<rparr>)
   \<and> target_of 0x08000000 = 0
   \<and> write_jump 3 [0x08000000] [''printf''] 1 8
       \<lparr>tbl = [\<lparr>name = ''main'', addr = 4\<rparr>], len = 1, cap = 5, mode = 0\<rparr> = None"
proof (intro conjI)
  have t: "add_to_table (create_table SYMTBL_NON_UNIQUE) ''main'' 4 =
     Some (0, \<lparr>tbl = [\<lparr>name = ''main'', addr = 4\<rparr>], len = 1, cap = 5, mode = 0\<rparr>)"
    by (subst add_to_table_empty)
       (simp_all add: create_table_def INITIAL_SIZE_def SYMTBL_NON_UNIQUE_def)
  show "write_jump 2 [] [''main''] 1 4 (create_table SYMTBL_NON_UNIQUE) =
     Some (0, [0x08000000],
           \<lparr>tbl = [\<lparr>name = ''main'', addr = 4\<rparr>], len = 1, cap = 5, mode = 0\<rparr>)"
    by (simp add: write_jump_def t write_inst_hex_def)
  show "target_of 0x08000000 = 0"
    by (simp add: target_of_def)
  show "write_jump 3 [0x08000000] [''printf''] 1 8
       \<lparr>tbl = [\<lparr>name = ''main'', addr = 4\<rparr>], len = 1, cap = 5, mode = 0\<rparr> = None"
    by (rule write_jump_nonempty) (simp_all add: SYMTBL_UNIQUE_NAME_def)
qed

end
